theory Spec2Isabelle
  imports Main "HOL-Library.Word"
begin

unbundle bit_operations_syntax

section \<open>Go values used by package data\<close>

text \<open>
  A Go \<open>string\<close> is a sequence of bytes and is modelled as \<open>string\<close>; a \<open>[]byte\<close> is a
  list of 8-bit words; \<open>time.Duration\<close> is an \<open>int64\<close> count of nanoseconds, and Go's
  \<open>int\<close> is taken at its 64-bit width, so that the multiplication in \<open>NewCache\<close> wraps
  as it does in the program.
\<close>

type_synonym byte = "8 word"
type_synonym bytes = "byte list"
type_synonym duration = "64 word"

definition Second :: duration where
  "Second = 1000000000"

definition bytes_of_string :: "string \<Rightarrow> bytes" where
  "bytes_of_string s = map of_char s"

text \<open>
  A non-nil Go \<open>error\<close>. \<open>RedisNil\<close> is the sentinel \<open>redis.Nil\<close>; \<open>WrapError\<close> is the
  value \<open>fmt.Errorf("<msg>: %w", err)\<close> builds (message prefix and wrapped error). A
  possibly-nil error is an \<open>error option\<close>.
\<close>

datatype error = RedisNil | ErrorString string | WrapError string error

text \<open>
  \<open>errors.Is\<close> of the standard library: false on a nil error, otherwise a walk down the
  \<open>Unwrap\<close> chain that stops at the first error equal to the target.
\<close>

fun unwrap_Is :: "error \<Rightarrow> error \<Rightarrow> bool" where
  "unwrap_Is (WrapError msg inner) target =
     (WrapError msg inner = target \<or> unwrap_Is inner target)"
| "unwrap_Is RedisNil target = (RedisNil = target)"
| "unwrap_Is (ErrorString s) target = (ErrorString s = target)"

fun errors_Is :: "error option \<Rightarrow> error \<Rightarrow> bool" where
  "errors_Is None target = False"
| "errors_Is (Some err) target = unwrap_Is err target"

text \<open>A \<open>context.Context\<close>: the background context, or one with a timeout on a parent.\<close>

datatype ctx = Background | WithTimeout ctx duration

section \<open>The collaborators\<close>

text \<open>
  \<open>redis.NewClient(opt)\<close> opens no connection; the client it returns is identified by
  the options it was built from.
\<close>

datatype 'o redis_client = NewClient 'o

text \<open>The commands a client sends to the store, with their arguments.\<close>

datatype 'o call =
    CallPing "'o redis_client" ctx
  | CallClose "'o redis_client"
  | CallGet "'o redis_client" ctx string
  | CallSet "'o redis_client" ctx string bytes duration
  | CallDel "'o redis_client" ctx string

text \<open>The array type \<open>[32]byte\<close> that \<open>sha256.Sum256\<close> returns.\<close>

typedef digest = "{bs :: bytes. length bs = 32}"
  by (rule exI [of _ "replicate 32 0"]) simp

text \<open>
  The libraries the package calls (go-redis, \<open>encoding/json\<close>, \<open>crypto/sha256\<close>) are not
  part of the repository; their behaviour is a parameter. The answer of the store to a
  command may depend on every command issued before it (the first argument of the store
  functions), so any sequence of answers is the behaviour of some \<open>collab\<close>. \<open>'o\<close> is
  \<open>redis.Options\<close>, \<open>'v\<close> the values behind \<open>interface{}\<close>.
\<close>

record ('o, 'v) collab =
  ParseURL :: "string \<Rightarrow> error + 'o"
  Ping :: "'o call list \<Rightarrow> 'o redis_client \<Rightarrow> ctx \<Rightarrow> error option"
  ClientClose :: "'o call list \<Rightarrow> 'o redis_client \<Rightarrow> error option"
  ClientGet :: "'o call list \<Rightarrow> 'o redis_client \<Rightarrow> ctx \<Rightarrow> string \<Rightarrow> string \<times> error option"
  ClientSet :: "'o call list \<Rightarrow> 'o redis_client \<Rightarrow> ctx \<Rightarrow> string \<Rightarrow> bytes \<Rightarrow> duration \<Rightarrow> error option"
  ClientDel :: "'o call list \<Rightarrow> 'o redis_client \<Rightarrow> ctx \<Rightarrow> string \<Rightarrow> error option"
  Marshal :: "'v \<Rightarrow> bytes \<times> error option"
  Unmarshal :: "bytes \<Rightarrow> 'v \<Rightarrow> 'v \<times> error option"
  Sum256 :: "bytes \<Rightarrow> digest"

text \<open>
  What the program does to the outside: the commands sent to the store, in order, and
  the lines handed to \<open>log.Printf\<close> (format string and arguments).
\<close>

datatype fmt_arg = ArgString string | ArgInt "64 word" | ArgError error | ArgDuration duration

record 'o world =
  calls :: "'o call list"
  logs :: "(string \<times> fmt_arg list) list"

definition log_Printf :: "'o world \<Rightarrow> string \<Rightarrow> fmt_arg list \<Rightarrow> 'o world" where
  "log_Printf w format args = w\<lparr>logs := logs w @ [(format, args)]\<rparr>"

definition issue :: "'o world \<Rightarrow> 'o call \<Rightarrow> 'o world" where
  "issue w cmd = w\<lparr>calls := calls w @ [cmd]\<rparr>"

definition client_Ping ::
  "('o, 'v) collab \<Rightarrow> 'o world \<Rightarrow> 'o redis_client \<Rightarrow> ctx \<Rightarrow> error option \<times> 'o world" where
  "client_Ping env w cl c = (Ping env (calls w) cl c, issue w (CallPing cl c))"

definition client_Close ::
  "('o, 'v) collab \<Rightarrow> 'o world \<Rightarrow> 'o redis_client \<Rightarrow> error option \<times> 'o world" where
  "client_Close env w cl = (ClientClose env (calls w) cl, issue w (CallClose cl))"

definition client_Get ::
  "('o, 'v) collab \<Rightarrow> 'o world \<Rightarrow> 'o redis_client \<Rightarrow> ctx \<Rightarrow> string
     \<Rightarrow> (string \<times> error option) \<times> 'o world" where
  "client_Get env w cl c key = (ClientGet env (calls w) cl c key, issue w (CallGet cl c key))"

definition client_Set ::
  "('o, 'v) collab \<Rightarrow> 'o world \<Rightarrow> 'o redis_client \<Rightarrow> ctx \<Rightarrow> string \<Rightarrow> bytes \<Rightarrow> duration
     \<Rightarrow> error option \<times> 'o world" where
  "client_Set env w cl c key data expiration =
     (ClientSet env (calls w) cl c key data expiration, issue w (CallSet cl c key data expiration))"

definition client_Del ::
  "('o, 'v) collab \<Rightarrow> 'o world \<Rightarrow> 'o redis_client \<Rightarrow> ctx \<Rightarrow> string \<Rightarrow> error option \<times> 'o world" where
  "client_Del env w cl c key = (ClientDel env (calls w) cl c key, issue w (CallDel cl c key))"

section \<open>internal/data/cache.go\<close>

text \<open>The struct \<open>Cache\<close>; a nil \<open>client\<close> pointer is \<open>None\<close>.\<close>

record 'o cache =
  client :: "'o redis_client option"
  enabled :: bool
  ttl :: duration

text \<open>
  \<open>NewCache\<close> returns the pair of the program together with the world after it. The
  error returned by \<open>client.Close()\<close> on the ping-failure path is discarded.
\<close>

definition NewCache ::
  "('o, 'v) collab \<Rightarrow> 'o world \<Rightarrow> string \<Rightarrow> bool \<Rightarrow> 64 word
     \<Rightarrow> ('o cache \<times> error option) \<times> 'o world" where
  "NewCache env w redisURL enabledFlag ttlSeconds =
     (let cache = \<lparr>client = None, enabled = False, ttl = ttlSeconds * Second\<rparr> in
      if \<not> enabledFlag \<or> redisURL = [] then ((cache, None), w)
      else
        case ParseURL env redisURL of
          Inl err \<Rightarrow> ((cache, None), w)
        | Inr opt \<Rightarrow>
            let cl = NewClient opt;
                c = WithTimeout Background (5 * Second)
            in (case client_Ping env w cl c of
                  (Some err, w1) \<Rightarrow> ((cache, None), snd (client_Close env w1 cl))
                | (None, w1) \<Rightarrow> ((cache\<lparr>client := Some cl, enabled := True\<rparr>, None), w1)))"

definition Enabled :: "'o cache \<Rightarrow> bool" where
  "Enabled c = (enabled c \<and> client c \<noteq> None)"

definition Close :: "('o, 'v) collab \<Rightarrow> 'o world \<Rightarrow> 'o cache \<Rightarrow> error option \<times> 'o world" where
  "Close env w c =
     (case client c of
        Some cl \<Rightarrow> client_Close env w cl
      | None \<Rightarrow> (None, w))"

text \<open>
  The methods mutate the receiver and (for \<open>Get\<close>) the destination, so they return both
  beside the program's own results. Past the \<open>Enabled\<close> guard the client is not nil, so
  \<open>the (client c)\<close> is the client.
\<close>

definition Get ::
  "('o, 'v) collab \<Rightarrow> 'o world \<Rightarrow> 'o cache \<Rightarrow> ctx \<Rightarrow> string \<Rightarrow> 'v
     \<Rightarrow> (bool \<times> error option) \<times> 'v \<times> 'o cache \<times> 'o world" where
  "Get env w c cx key dest =
     (if \<not> Enabled c then ((False, None), dest, c, w)
      else
        case client_Get env w (the (client c)) cx key of
          ((val, err), w1) \<Rightarrow>
            if errors_Is err RedisNil then ((False, None), dest, c, w1)
            else if err \<noteq> None then ((False, None), dest, c\<lparr>enabled := False\<rparr>, w1)
            else
              (case Unmarshal env (bytes_of_string val) dest of
                 (dest1, Some uerr) \<Rightarrow>
                   ((False, Some (WrapError ''unmarshal cache value'' uerr)), dest1, c, w1)
               | (dest1, None) \<Rightarrow> ((True, None), dest1, c, w1)))"

definition Set ::
  "('o, 'v) collab \<Rightarrow> 'o world \<Rightarrow> 'o cache \<Rightarrow> ctx \<Rightarrow> string \<Rightarrow> 'v
     \<Rightarrow> error option \<times> 'o cache \<times> 'o world" where
  "Set env w c cx key v =
     (if \<not> Enabled c then (None, c, w)
      else
        case Marshal env v of
          (data, Some merr) \<Rightarrow> (Some (WrapError ''marshal cache value'' merr), c, w)
        | (data, None) \<Rightarrow>
            (case client_Set env w (the (client c)) cx key data (ttl c) of
               (Some err, w1) \<Rightarrow> (None, c\<lparr>enabled := False\<rparr>, w1)
             | (None, w1) \<Rightarrow> (None, c, w1)))"

definition Delete ::
  "('o, 'v) collab \<Rightarrow> 'o world \<Rightarrow> 'o cache \<Rightarrow> ctx \<Rightarrow> string
     \<Rightarrow> error option \<times> 'o cache \<times> 'o world" where
  "Delete env w c cx key =
     (if \<not> Enabled c then (None, c, w)
      else
        case client_Del env w (the (client c)) cx key of
          (Some err, w1) \<Rightarrow> (None, c\<lparr>enabled := False\<rparr>, w1)
        | (None, w1) \<Rightarrow> (None, c, w1))"

text \<open>
  \<open>hex.EncodeToString\<close> of the standard library: for every byte \<open>v\<close> of the source, in
  order, the characters \<open>hextable[v>>4]\<close> and \<open>hextable[v&0x0f]\<close>. Both indices are below
  16, the length of \<open>hextable\<close>.
\<close>

definition hextable :: string where
  "hextable = ''0123456789abcdef''"

fun EncodeToString :: "bytes \<Rightarrow> string" where
  "EncodeToString [] = []"
| "EncodeToString (v # src) =
     hextable ! unat (drop_bit 4 v) # hextable ! unat (v AND 0x0f) # EncodeToString src"

text \<open>\<open>hash[:]\<close> of the array \<open>[32]byte\<close> is \<open>Rep_digest hash\<close>.\<close>

definition GenerateCacheKey :: "('o, 'v) collab \<Rightarrow> string \<Rightarrow> 'v \<Rightarrow> string" where
  "GenerateCacheKey env prefix params =
     (case Marshal env params of
        (data, Some err) \<Rightarrow> prefix @ '':fallback''
      | (data, None) \<Rightarrow>
          let hash = Sum256 env data;
              hashStr = EncodeToString (Rep_digest hash)
          in prefix @ '':'' @ hashStr)"

section \<open>The second source file of package data (the variant that logs)\<close>

text \<open>
  The same struct and the same functions, with a \<open>log.Printf\<close> on every branch and the
  first guard of \<open>NewCache\<close> split in two. Its functions carry the suffix \<open>_log\<close>.
\<close>

definition NewCache_log ::
  "('o, 'v) collab \<Rightarrow> 'o world \<Rightarrow> string \<Rightarrow> bool \<Rightarrow> 64 word
     \<Rightarrow> ('o cache \<times> error option) \<times> 'o world" where
  "NewCache_log env w redisURL enabledFlag ttlSeconds =
     (let cache = \<lparr>client = None, enabled = False, ttl = ttlSeconds * Second\<rparr> in
      if \<not> enabledFlag then
        ((cache, None), log_Printf w ''[Redis] Cache disabled (REDIS_ENABLED=false)'' [])
      else if redisURL = [] then
        ((cache, None), log_Printf w ''[Redis] Cache disabled (REDIS_URL not set)'' [])
      else
        let w0 = log_Printf w ''[Redis] Initializing cache with URL: %s, TTL: %d seconds''
                   [ArgString redisURL, ArgInt ttlSeconds]
        in case ParseURL env redisURL of
             Inl err \<Rightarrow>
               ((cache, None),
                log_Printf w0 ''[Redis] Failed to parse Redis URL: %v'' [ArgError err])
           | Inr opt \<Rightarrow>
               let cl = NewClient opt;
                   c = WithTimeout Background (5 * Second)
               in (case client_Ping env w0 cl c of
                     (Some err, w1) \<Rightarrow>
                       let w2 = log_Printf w1 ''[Redis] Connection failed: %v'' [ArgError err]
                       in ((cache, None), snd (client_Close env w2 cl))
                   | (None, w1) \<Rightarrow>
                       ((cache\<lparr>client := Some cl, enabled := True\<rparr>, None),
                        log_Printf w1 ''[Redis] Cache enabled and connected successfully'' [])))"

definition Enabled_log :: "'o cache \<Rightarrow> bool" where
  "Enabled_log c = (enabled c \<and> client c \<noteq> None)"

definition Close_log :: "('o, 'v) collab \<Rightarrow> 'o world \<Rightarrow> 'o cache \<Rightarrow> error option \<times> 'o world" where
  "Close_log env w c =
     (case client c of
        Some cl \<Rightarrow> client_Close env w cl
      | None \<Rightarrow> (None, w))"

definition Get_log ::
  "('o, 'v) collab \<Rightarrow> 'o world \<Rightarrow> 'o cache \<Rightarrow> ctx \<Rightarrow> string \<Rightarrow> 'v
     \<Rightarrow> (bool \<times> error option) \<times> 'v \<times> 'o cache \<times> 'o world" where
  "Get_log env w c cx key dest =
     (if \<not> Enabled_log c then ((False, None), dest, c, w)
      else
        case client_Get env w (the (client c)) cx key of
          ((val, err), w1) \<Rightarrow>
            if errors_Is err RedisNil then
              ((False, None), dest, c, log_Printf w1 ''[Redis] Cache miss: %s'' [ArgString key])
            else if err \<noteq> None then
              ((False, None), dest, c\<lparr>enabled := False\<rparr>,
               log_Printf w1 ''[Redis] Get error for key %s: %v (disabling cache)''
                 [ArgString key, ArgError (the err)])
            else
              (case Unmarshal env (bytes_of_string val) dest of
                 (dest1, Some uerr) \<Rightarrow>
                   ((False, Some (WrapError ''unmarshal cache value'' uerr)), dest1, c,
                    log_Printf w1 ''[Redis] Unmarshal error for key %s: %v''
                      [ArgString key, ArgError uerr])
               | (dest1, None) \<Rightarrow>
                   ((True, None), dest1, c,
                    log_Printf w1 ''[Redis] Cache hit: %s'' [ArgString key])))"

definition Set_log ::
  "('o, 'v) collab \<Rightarrow> 'o world \<Rightarrow> 'o cache \<Rightarrow> ctx \<Rightarrow> string \<Rightarrow> 'v
     \<Rightarrow> error option \<times> 'o cache \<times> 'o world" where
  "Set_log env w c cx key v =
     (if \<not> Enabled_log c then (None, c, w)
      else
        case Marshal env v of
          (data, Some merr) \<Rightarrow>
            (Some (WrapError ''marshal cache value'' merr), c,
             log_Printf w ''[Redis] Marshal error for key %s: %v'' [ArgString key, ArgError merr])
        | (data, None) \<Rightarrow>
            (case client_Set env w (the (client c)) cx key data (ttl c) of
               (Some err, w1) \<Rightarrow>
                 (None, c\<lparr>enabled := False\<rparr>,
                  log_Printf w1 ''[Redis] Set error for key %s: %v (disabling cache)''
                    [ArgString key, ArgError err])
             | (None, w1) \<Rightarrow>
                 (None, c,
                  log_Printf w1 ''[Redis] Cache set: %s (TTL: %v)''
                    [ArgString key, ArgDuration (ttl c)])))"

definition Delete_log ::
  "('o, 'v) collab \<Rightarrow> 'o world \<Rightarrow> 'o cache \<Rightarrow> ctx \<Rightarrow> string
     \<Rightarrow> error option \<times> 'o cache \<times> 'o world" where
  "Delete_log env w c cx key =
     (if \<not> Enabled_log c then (None, c, w)
      else
        case client_Del env w (the (client c)) cx key of
          (Some err, w1) \<Rightarrow>
            (None, c\<lparr>enabled := False\<rparr>,
             log_Printf w1 ''[Redis] Delete error for key %s: %v (disabling cache)''
               [ArgString key, ArgError err])
        | (None, w1) \<Rightarrow>
            (None, c, log_Printf w1 ''[Redis] Cache deleted: %s'' [ArgString key]))"

definition GenerateCacheKey_log :: "('o, 'v) collab \<Rightarrow> string \<Rightarrow> 'v \<Rightarrow> string" where
  "GenerateCacheKey_log env prefix params =
     (case Marshal env params of
        (data, Some err) \<Rightarrow> prefix @ '':fallback''
      | (data, None) \<Rightarrow>
          let hash = Sum256 env data;
              hashStr = EncodeToString (Rep_digest hash)
          in prefix @ '':'' @ hashStr)"

section \<open>Sequences of operations\<close>

text \<open>
  A caller's use of one instance: a list of \<open>Get\<close>, \<open>Set\<close> and \<open>Delete\<close> calls, run in
  order on the instance and the world the previous call left.
\<close>

datatype 'v op = OpGet ctx string 'v | OpSet ctx string 'v | OpDelete ctx string

datatype 'v outcome = GetResult bool "error option" 'v | ErrResult "error option"

fun step ::
  "('o, 'v) collab \<Rightarrow> 'o world \<Rightarrow> 'o cache \<Rightarrow> 'v op \<Rightarrow> 'v outcome \<times> 'o cache \<times> 'o world" where
  "step env w c (OpGet cx key dest) =
     (case Get env w c cx key dest of
        ((found, err), dest1, c1, w1) \<Rightarrow> (GetResult found err dest1, c1, w1))"
| "step env w c (OpSet cx key v) =
     (case Set env w c cx key v of (err, c1, w1) \<Rightarrow> (ErrResult err, c1, w1))"
| "step env w c (OpDelete cx key) =
     (case Delete env w c cx key of (err, c1, w1) \<Rightarrow> (ErrResult err, c1, w1))"

fun run ::
  "('o, 'v) collab \<Rightarrow> 'o world \<Rightarrow> 'o cache \<Rightarrow> 'v op list
     \<Rightarrow> 'v outcome list \<times> 'o cache \<times> 'o world" where
  "run env w c [] = ([], c, w)"
| "run env w c (x # xs) =
     (case step env w c x of
        (r, c1, w1) \<Rightarrow> (case run env w1 c1 xs of (rs, c2, w2) \<Rightarrow> (r # rs, c2, w2)))"

text \<open>What an operation returns when it does nothing: not found, no error.\<close>

fun noop :: "'v op \<Rightarrow> 'v outcome" where
  "noop (OpGet cx key dest) = GetResult False None dest"
| "noop (OpSet cx key v) = ErrResult None"
| "noop (OpDelete cx key) = ErrResult None"

text \<open>
  An operation observes a store-level failure when the instance is available, the
  command reaches the store, and the store answers with an error (for a read: an error
  other than "key not found").
\<close>

fun store_failure :: "('o, 'v) collab \<Rightarrow> 'o world \<Rightarrow> 'o cache \<Rightarrow> 'v op \<Rightarrow> bool" where
  "store_failure env w c (OpGet cx key dest) =
     (Enabled c \<and>
      (case ClientGet env (calls w) (the (client c)) cx key of
         (val, err) \<Rightarrow> err \<noteq> None \<and> \<not> errors_Is err RedisNil))"
| "store_failure env w c (OpSet cx key v) =
     (Enabled c \<and>
      (case Marshal env v of
         (data, Some merr) \<Rightarrow> False
       | (data, None) \<Rightarrow> ClientSet env (calls w) (the (client c)) cx key data (ttl c) \<noteq> None))"
| "store_failure env w c (OpDelete cx key) =
     (Enabled c \<and> ClientDel env (calls w) (the (client c)) cx key \<noteq> None)"

section \<open>Example collaborators\<close>

text \<open>
  A store and a codec to run the program on. Options are the address itself; values are
  strings, encoded as their bytes, except that \<open>''cyclic''\<close> cannot be encoded and a
  payload starting with \<open>!\<close> cannot be decoded. The store answers every read with
  \<open>get_answer\<close>, every write and delete with \<open>write_answer\<close>, the ping with \<open>ping_answer\<close>
  and the release of a client with \<open>close_answer\<close>. The digest of the example is the
  first 32 bytes of the zero-padded data (a stand-in of the right size, not SHA-256).
\<close>

definition pad_digest :: "bytes \<Rightarrow> digest" where
  "pad_digest data = Abs_digest (take 32 (data @ replicate 32 0))"

definition stub ::
  "error option \<Rightarrow> string \<times> error option \<Rightarrow> error option \<Rightarrow> error option
     \<Rightarrow> (string, string) collab" where
  "stub ping_answer get_answer write_answer close_answer =
     \<lparr>ParseURL = (\<lambda>u. if take 8 u = ''redis://'' then Inr u else Inl (ErrorString ''invalid URL scheme'')),
      Ping = (\<lambda>hist cl c. ping_answer),
      ClientClose = (\<lambda>hist cl. close_answer),
      ClientGet = (\<lambda>hist cl c key. get_answer),
      ClientSet = (\<lambda>hist cl c key data expiration. write_answer),
      ClientDel = (\<lambda>hist cl c key. write_answer),
      Marshal = (\<lambda>v. if v = ''cyclic'' then ([], Some (ErrorString ''unsupported value''))
                     else (bytes_of_string v, None)),
      Unmarshal = (\<lambda>data dest. if take 1 data = [0x21 :: byte] then (dest, Some (ErrorString ''invalid character''))
                     else (map (\<lambda>b. char_of (unat b)) data, None)),
      Sum256 = pad_digest\<rparr>"

definition refused :: error where
  "refused = ErrorString ''connection refused''"

definition w0 :: "string world" where
  "w0 = \<lparr>calls = [], logs = []\<rparr>"

definition live :: "string cache" where
  "live = \<lparr>client = Some (NewClient ''redis://h''), enabled = True, ttl = 60 * Second\<rparr>"

section \<open>Facts about single operations and sequences\<close>

lemma step_noop: "\<not> Enabled c \<Longrightarrow> step env w c x = (noop x, c, w)"
  by (cases x) (simp_all add: Get_def Set_def Delete_def)

lemma run_noop: "\<not> Enabled c \<Longrightarrow> run env w c xs = (map noop xs, c, w)"
  by (induction xs) (simp_all add: step_noop)

lemma step_frame:
  "step env w c x = (r, c1, w1) \<Longrightarrow> client c1 = client c \<and> ttl c1 = ttl c \<and> (enabled c1 \<longrightarrow> enabled c)"
  by (cases x)
     (auto simp: Get_def Set_def Delete_def client_Get_def client_Set_def client_Del_def
           split: if_splits prod.splits option.splits)

lemma run_enabled_mono: "enabled (fst (snd (run env w c xs))) \<Longrightarrow> enabled c"
proof (induction xs arbitrary: w c)
  case Nil
  then show ?case by simp
next
  case (Cons x xs)
  obtain r c' w' where s: "step env w c x = (r, c', w')"
    by (cases "step env w c x")
  with Cons.prems have "enabled (fst (snd (run env w' c' xs)))"
    by (simp split: prod.splits)
  then have "enabled c'" by (rule Cons.IH)
  with step_frame [OF s] show ?case by simp
qed

lemma step_failure:
  "store_failure env w c x \<Longrightarrow> step env w c x = (r, c1, w1) \<Longrightarrow> c1 = c\<lparr>enabled := False\<rparr>"
  by (cases x)
     (auto simp: Get_def Set_def Delete_def client_Get_def client_Set_def client_Del_def
           split: if_splits prod.splits option.splits)

lemma run_append:
  "run env w c xs = (rs, c1, w1) \<Longrightarrow> run env w1 c1 ys = (rs', c2, w2) \<Longrightarrow>
   run env w c (xs @ ys) = (rs @ rs', c2, w2)"
  by (induction xs arbitrary: w c rs) (auto split: prod.splits)

text \<open>The definitions unfolded to run the program on the example collaborators.\<close>

lemmas ex_defs = stub_def refused_def w0_def live_def Second_def bytes_of_string_def
  Get_def Set_def Delete_def Enabled_def Close_def NewCache_def issue_def
  client_Get_def client_Set_def client_Del_def client_Ping_def client_Close_def

section \<open>The availability flag\<close>

text \<open>
  Claim C1. Over any sequence of \<open>Get\<close>, \<open>Set\<close> and \<open>Delete\<close> calls on any instance the
  flag \<open>enabled\<close> is never set back to true: if it is true after the sequence, it was true
  before. And once an operation observes a store-level failure (after any sequence \<open>xs\<close>
  of earlier operations), \<open>Enabled\<close> is false and every later operation \<open>ys\<close> does nothing:
  it returns not-found or no error, and the instance and the world (so the list of
  commands sent to the store) stay as the failing operation left them.
\<close>

theorem availability_flag_monotonic:
  "(enabled (fst (snd (run env w c xs))) \<longrightarrow> enabled c) \<and>
   (run env w c xs = (rs, c1, w1) \<and> store_failure env w1 c1 x \<and> step env w1 c1 x = (r, c2, w2) \<longrightarrow>
      \<not> Enabled c2 \<and> run env w c (xs @ x # ys) = (rs @ r # map noop ys, c2, w2))"
proof (intro conjI impI)
  assume "enabled (fst (snd (run env w c xs)))"
  then show "enabled c" by (rule run_enabled_mono)
next
  assume a: "run env w c xs = (rs, c1, w1) \<and> store_failure env w1 c1 x \<and> step env w1 c1 x = (r, c2, w2)"
  then have "c2 = c1\<lparr>enabled := False\<rparr>" by (blast intro: step_failure)
  then show off: "\<not> Enabled c2" by (simp add: Enabled_def)
  from off have "run env w2 c2 ys = (map noop ys, c2, w2)" by (rule run_noop)
  with a have "run env w1 c1 (x # ys) = (r # map noop ys, c2, w2)" by simp
  with a show "run env w c (xs @ x # ys) = (rs @ r # map noop ys, c2, w2)"
    by (blast intro: run_append)
qed

theorem availability_flag_monotonic_witness:
  "enabled live \<and>
   run (stub None ('''', Some refused) None None) w0 live
     [OpSet Background ''k'' ''v'', OpGet Background ''k'' '''', OpGet Background ''k'' '''',
      OpSet Background ''j'' ''u'', OpDelete Background ''k''] =
     ([ErrResult None, GetResult False None '''', GetResult False None '''', ErrResult None,
       ErrResult None],
      live\<lparr>enabled := False\<rparr>,
      \<lparr>calls = [CallSet (NewClient ''redis://h'') Background ''k'' [0x76] 60000000000,
                CallGet (NewClient ''redis://h'') Background ''k''],
       logs = []\<rparr>)"
proof -
  let ?E = "stub None ('''', Some refused) None None :: (string, string) collab"
  let ?w1 = "\<lparr>calls = [CallSet (NewClient ''redis://h'') Background ''k'' [0x76] 60000000000],
              logs = []\<rparr> :: string world"
  let ?w2 = "\<lparr>calls = [CallSet (NewClient ''redis://h'') Background ''k'' [0x76] 60000000000,
                CallGet (NewClient ''redis://h'') Background ''k''],
              logs = []\<rparr> :: string world"
  have h1: "run ?E w0 live [OpSet Background ''k'' ''v''] = ([ErrResult None], live, ?w1)"
    by (simp add: ex_defs)
  have h2: "store_failure ?E ?w1 live (OpGet Background ''k'' '''')"
    by (simp add: ex_defs)
  have h3: "step ?E ?w1 live (OpGet Background ''k'' '''') =
            (GetResult False None '''', live\<lparr>enabled := False\<rparr>, ?w2)"
    by (simp add: ex_defs)
  have h4: "enabled (fst (snd (run ?E w0 live [OpSet Background ''k'' ''v''])))"
    by (simp add: ex_defs)
  from availability_flag_monotonic
         [of ?E w0 live "[OpSet Background ''k'' ''v'']" "[ErrResult None]" live ?w1
             "OpGet Background ''k'' ''''" "GetResult False None ''''" "live\<lparr>enabled := False\<rparr>" ?w2
             "[OpGet Background ''k'' '''', OpSet Background ''j'' ''u'', OpDelete Background ''k'']"]
       h1 h2 h3 h4
  show ?thesis by simp
qed

section \<open>Get: unavailable instance, absent key, store error\<close>

text \<open>
  Claim C2. On an unavailable instance \<open>Get\<close> returns (false, no error) at once: the
  destination, the instance and the world are untouched, so no command reaches the
  store. On an available instance, when the store answers the read with an error that
  \<open>errors.Is\<close> identifies as \<open>redis.Nil\<close> (key absent), \<open>Get\<close> returns (false, no error) and
  leaves the instance as it was; when the store answers with any other error, \<open>Get\<close>
  returns (false, no error) and the only change to the instance is \<open>enabled := False\<close>.
\<close>

theorem Get_store_answers:
  "(\<not> Enabled c \<longrightarrow> Get env w c cx key dest = ((False, None), dest, c, w)) \<and>
   (Enabled c \<and> ClientGet env (calls w) (the (client c)) cx key = (val, err) \<and>
      errors_Is err RedisNil \<longrightarrow>
      Get env w c cx key dest =
        ((False, None), dest, c, issue w (CallGet (the (client c)) cx key))) \<and>
   (Enabled c \<and> ClientGet env (calls w) (the (client c)) cx key = (val, err) \<and>
      err \<noteq> None \<and> \<not> errors_Is err RedisNil \<longrightarrow>
      Get env w c cx key dest =
        ((False, None), dest, c\<lparr>enabled := False\<rparr>, issue w (CallGet (the (client c)) cx key)))"
  by (simp add: Get_def client_Get_def)

theorem Get_store_answers_witness:
  "Get (stub None ('''', Some RedisNil) None None) w0 (live\<lparr>enabled := False\<rparr>) Background ''k'' ''d'' =
     ((False, None), ''d'', live\<lparr>enabled := False\<rparr>, w0) \<and>
   Get (stub None ('''', Some RedisNil) None None) w0 live Background ''k'' ''d'' =
     ((False, None), ''d'', live, issue w0 (CallGet (NewClient ''redis://h'') Background ''k'')) \<and>
   Get (stub None ('''', Some refused) None None) w0 live Background ''k'' ''d'' =
     ((False, None), ''d'', live\<lparr>enabled := False\<rparr>,
      issue w0 (CallGet (NewClient ''redis://h'') Background ''k''))"
proof -
  have off: "\<not> Enabled (live\<lparr>enabled := False\<rparr>)"
    by (simp add: Enabled_def)
  have on: "Enabled live" and cl: "the (client live) = NewClient ''redis://h''"
    by (simp_all add: Enabled_def live_def)
  have miss: "ClientGet (stub None ('''', Some RedisNil) None None) (calls w0) (the (client live))
                Background ''k'' = ('''', Some RedisNil)"
    and is_nil: "errors_Is (Some RedisNil) RedisNil"
    by (simp_all add: stub_def)
  have fail: "ClientGet (stub None ('''', Some refused) None None) (calls w0) (the (client live))
                Background ''k'' = ('''', Some refused)"
    and other: "Some refused \<noteq> None" "\<not> errors_Is (Some refused) RedisNil"
    by (simp_all add: stub_def refused_def)
  from off Get_store_answers
         [where c = "live\<lparr>enabled := False\<rparr>" and env = "stub None ('''', Some RedisNil) None None"
            and w = w0 and cx = Background and key = "''k''" and dest = "''d''"]
  have a: "Get (stub None ('''', Some RedisNil) None None) w0 (live\<lparr>enabled := False\<rparr>) Background ''k'' ''d'' =
     ((False, None), ''d'', live\<lparr>enabled := False\<rparr>, w0)" by blast
  from on miss is_nil cl Get_store_answers
         [where c = live and env = "stub None ('''', Some RedisNil) None None" and w = w0
            and cx = Background and key = "''k''" and dest = "''d''" and val = "''''"
            and err = "Some RedisNil"]
  have b: "Get (stub None ('''', Some RedisNil) None None) w0 live Background ''k'' ''d'' =
     ((False, None), ''d'', live, issue w0 (CallGet (NewClient ''redis://h'') Background ''k''))"
    by simp
  from on fail other cl Get_store_answers
         [where c = live and env = "stub None ('''', Some refused) None None" and w = w0
            and cx = Background and key = "''k''" and dest = "''d''" and val = "''''"
            and err = "Some refused"]
  have c: "Get (stub None ('''', Some refused) None None) w0 live Background ''k'' ''d'' =
     ((False, None), ''d'', live\<lparr>enabled := False\<rparr>,
      issue w0 (CallGet (NewClient ''redis://h'') Background ''k''))"
    by simp
  from a b c show ?thesis by blast
qed

section \<open>Set: serialization failure, write failure, success\<close>

text \<open>
  Claim C3. On an available instance: when \<open>json.Marshal\<close> fails, \<open>Set\<close> returns that
  error wrapped as "marshal cache value", and neither the instance (so not the flag) nor
  the world changes; when it succeeds and the store rejects the write, \<open>Set\<close> sets
  \<open>enabled\<close> to false and returns no error; when the write succeeds, \<open>Set\<close> returns no
  error and leaves the instance alone. In both of the last two cases the one command
  sent is the write of the serialized bytes under the key with expiry \<open>ttl c\<close>.
\<close>

theorem Set_outcomes:
  "Enabled c \<Longrightarrow>
   (Marshal env v = (data, Some merr) \<longrightarrow>
      Set env w c cx key v = (Some (WrapError ''marshal cache value'' merr), c, w)) \<and>
   (Marshal env v = (data, None) \<and>
      ClientSet env (calls w) (the (client c)) cx key data (ttl c) = Some err \<longrightarrow>
      Set env w c cx key v =
        (None, c\<lparr>enabled := False\<rparr>, issue w (CallSet (the (client c)) cx key data (ttl c)))) \<and>
   (Marshal env v = (data, None) \<and>
      ClientSet env (calls w) (the (client c)) cx key data (ttl c) = None \<longrightarrow>
      Set env w c cx key v =
        (None, c, issue w (CallSet (the (client c)) cx key data (ttl c))))"
  by (simp add: Set_def client_Set_def)

theorem Set_outcomes_witness:
  "Enabled live \<and>
   Set (stub None ('''', None) None None) w0 live Background ''k'' ''cyclic'' =
     (Some (WrapError ''marshal cache value'' (ErrorString ''unsupported value'')), live, w0) \<and>
   Set (stub None ('''', None) (Some refused) None) w0 live Background ''k'' ''v'' =
     (None, live\<lparr>enabled := False\<rparr>,
      \<lparr>calls = [CallSet (NewClient ''redis://h'') Background ''k'' [0x76] 60000000000], logs = []\<rparr>) \<and>
   Set (stub None ('''', None) None None) w0 live Background ''k'' ''v'' =
     (None, live,
      \<lparr>calls = [CallSet (NewClient ''redis://h'') Background ''k'' [0x76] 60000000000], logs = []\<rparr>)"
proof -
  have on: "Enabled live"
    by (simp add: Enabled_def live_def)
  have a: "Marshal (stub None ('''', None) None None) ''cyclic'' =
             ([], Some (ErrorString ''unsupported value''))"
    by (simp add: stub_def)
  have b: "Marshal (stub None ('''', None) (Some refused) None) ''v'' = ([0x76], None) \<and>
           ClientSet (stub None ('''', None) (Some refused) None) (calls w0) (the (client live))
             Background ''k'' [0x76] (ttl live) = Some refused"
    by (simp add: stub_def bytes_of_string_def)
  have c: "Marshal (stub None ('''', None) None None) ''v'' = ([0x76], None) \<and>
           ClientSet (stub None ('''', None) None None) (calls w0) (the (client live))
             Background ''k'' [0x76] (ttl live) = None"
    by (simp add: stub_def bytes_of_string_def)
  have l: "the (client live) = NewClient ''redis://h''" "ttl live = 60000000000" "calls w0 = []"
          "logs w0 = []"
    by (simp_all add: live_def w0_def Second_def)
  from a Set_outcomes
         [OF on, where env = "stub None ('''', None) None None" and v = "''cyclic''"
            and data = "[]" and merr = "ErrorString ''unsupported value''" and w = w0
            and cx = Background and key = "''k''"]
  have A: "Set (stub None ('''', None) None None) w0 live Background ''k'' ''cyclic'' =
     (Some (WrapError ''marshal cache value'' (ErrorString ''unsupported value'')), live, w0)"
    by blast
  from b Set_outcomes
         [OF on, where env = "stub None ('''', None) (Some refused) None" and v = "''v''"
            and data = "[0x76]" and err = refused and w = w0 and cx = Background and key = "''k''"]
  have B: "Set (stub None ('''', None) (Some refused) None) w0 live Background ''k'' ''v'' =
     (None, live\<lparr>enabled := False\<rparr>,
      \<lparr>calls = [CallSet (NewClient ''redis://h'') Background ''k'' [0x76] 60000000000], logs = []\<rparr>)"
    by (simp add: l issue_def w0_def)
  from c Set_outcomes
         [OF on, where env = "stub None ('''', None) None None" and v = "''v''"
            and data = "[0x76]" and w = w0 and cx = Background and key = "''k''"]
  have C: "Set (stub None ('''', None) None None) w0 live Background ''k'' ''v'' =
     (None, live,
      \<lparr>calls = [CallSet (NewClient ''redis://h'') Background ''k'' [0x76] 60000000000], logs = []\<rparr>)"
    by (simp add: l issue_def w0_def)
  from on A B C show ?thesis by blast
qed

section \<open>Construction\<close>

text \<open>
  Claim C4. For every address, flag, lifetime and collaborator behaviour \<open>NewCache\<close>
  returns a nil error. On every failure path (disabled by configuration, empty address,
  address that does not parse, ping that fails) the instance returned is the disabled
  one (no client, \<open>enabled\<close> false), and it is usable: any sequence of operations on it
  returns not-found or no error without a command to the store, and \<open>Close\<close> on it
  returns no error and does nothing.
\<close>

theorem NewCache_never_fails:
  "snd (fst (NewCache env w redisURL enabledFlag ttlSeconds)) = None \<and>
   (\<not> enabledFlag \<or> redisURL = [] \<or> ParseURL env redisURL = Inl perr \<or>
    (ParseURL env redisURL = Inr opt \<and>
     Ping env (calls w) (NewClient opt) (WithTimeout Background (5 * Second)) = Some err) \<longrightarrow>
    (let r = NewCache env w redisURL enabledFlag ttlSeconds; c = fst (fst r); w1 = snd r
     in c = \<lparr>client = None, enabled = False, ttl = ttlSeconds * Second\<rparr> \<and> \<not> Enabled c \<and>
        run env w1 c xs = (map noop xs, c, w1) \<and> Close env w1 c = (None, w1)))"
proof -
  let ?d = "\<lparr>client = None, enabled = False, ttl = ttlSeconds * Second\<rparr> :: 'a cache"
  have off: "\<not> Enabled ?d" by (simp add: Enabled_def)
  have idle: "run env w1 ?d xs = (map noop xs, ?d, w1)" for w1
    using off by (rule run_noop)
  have shut: "Close env w1 ?d = (None, w1)" for w1
    by (simp add: Close_def)
  show ?thesis
    using off idle shut
    by (auto simp: NewCache_def Let_def client_Ping_def split: sum.splits option.splits)
qed

theorem NewCache_never_fails_witness:
  "fst (NewCache (stub None ('''', None) None None) w0 ''redis://h'' False 60) =
     (\<lparr>client = None, enabled = False, ttl = 60000000000\<rparr>, None) \<and>
   fst (NewCache (stub None ('''', None) None None) w0 [] True 60) =
     (\<lparr>client = None, enabled = False, ttl = 60000000000\<rparr>, None) \<and>
   fst (NewCache (stub None ('''', None) None None) w0 ''localhost'' True 60) =
     (\<lparr>client = None, enabled = False, ttl = 60000000000\<rparr>, None) \<and>
   fst (NewCache (stub (Some refused) ('''', None) None None) w0 ''redis://h'' True 60) =
     (\<lparr>client = None, enabled = False, ttl = 60000000000\<rparr>, None)"
proof -
  have p: "ParseURL (stub None ('''', None) None None) ''localhost'' =
             Inl (ErrorString ''invalid URL scheme'')"
    by (simp add: stub_def)
  have q: "ParseURL (stub (Some refused) ('''', None) None None) ''redis://h'' = Inr ''redis://h'' \<and>
           Ping (stub (Some refused) ('''', None) None None) (calls w0) (NewClient ''redis://h'')
             (WithTimeout Background (5 * Second)) = Some refused"
    by (simp add: stub_def)
  have s: "(60 :: 64 word) * Second = 60000000000"
    by (simp add: Second_def)
  from NewCache_never_fails
         [where env = "stub None ('''', None) None None" and w = w0 and redisURL = "''redis://h''"
            and enabledFlag = False and ttlSeconds = 60 and xs = "[]"]
  have a: "fst (NewCache (stub None ('''', None) None None) w0 ''redis://h'' False 60) =
     (\<lparr>client = None, enabled = False, ttl = 60000000000\<rparr>, None)"
    by (simp add: s Let_def prod_eq_iff)
  from NewCache_never_fails
         [where env = "stub None ('''', None) None None" and w = w0 and redisURL = "[]"
            and enabledFlag = True and ttlSeconds = 60 and xs = "[]"]
  have b: "fst (NewCache (stub None ('''', None) None None) w0 [] True 60) =
     (\<lparr>client = None, enabled = False, ttl = 60000000000\<rparr>, None)"
    by (simp add: s Let_def prod_eq_iff)
  from p NewCache_never_fails
         [where env = "stub None ('''', None) None None" and w = w0 and redisURL = "''localhost''"
            and enabledFlag = True and ttlSeconds = 60
            and perr = "ErrorString ''invalid URL scheme''" and xs = "[]"]
  have c: "fst (NewCache (stub None ('''', None) None None) w0 ''localhost'' True 60) =
     (\<lparr>client = None, enabled = False, ttl = 60000000000\<rparr>, None)"
    by (simp add: s Let_def prod_eq_iff)
  from q NewCache_never_fails
         [where env = "stub (Some refused) ('''', None) None None" and w = w0
            and redisURL = "''redis://h''" and enabledFlag = True and ttlSeconds = 60
            and opt = "''redis://h''" and err = refused and xs = "[]"]
  have d: "fst (NewCache (stub (Some refused) ('''', None) None None) w0 ''redis://h'' True 60) =
     (\<lparr>client = None, enabled = False, ttl = 60000000000\<rparr>, None)"
    by (simp add: s Let_def prod_eq_iff)
  from a b c d show ?thesis by blast
qed

text \<open>
  Claim C5. With the flag set, a non-empty address and an address that parses to \<open>opt\<close>:
  when the ping fails, \<open>NewCache\<close> sends the ping and then closes the client it has just
  built, and returns the disabled instance without client; when the ping succeeds,
  the ping is the only command sent, and the instance returned holds the client, has
  \<open>enabled\<close> true and is \<open>Enabled\<close>.
\<close>

theorem NewCache_liveness_check:
  "enabledFlag \<and> redisURL \<noteq> [] \<and> ParseURL env redisURL = Inr opt \<Longrightarrow>
   (Ping env (calls w) (NewClient opt) (WithTimeout Background (5 * Second)) = Some err \<longrightarrow>
      NewCache env w redisURL enabledFlag ttlSeconds =
        ((\<lparr>client = None, enabled = False, ttl = ttlSeconds * Second\<rparr>, None),
         issue (issue w (CallPing (NewClient opt) (WithTimeout Background (5 * Second))))
           (CallClose (NewClient opt)))) \<and>
   (Ping env (calls w) (NewClient opt) (WithTimeout Background (5 * Second)) = None \<longrightarrow>
      NewCache env w redisURL enabledFlag ttlSeconds =
        ((\<lparr>client = Some (NewClient opt), enabled = True, ttl = ttlSeconds * Second\<rparr>, None),
         issue w (CallPing (NewClient opt) (WithTimeout Background (5 * Second)))) \<and>
      Enabled (fst (fst (NewCache env w redisURL enabledFlag ttlSeconds))))"
  by (simp add: NewCache_def Let_def client_Ping_def client_Close_def Enabled_def)

theorem NewCache_liveness_check_witness:
  "NewCache (stub (Some refused) ('''', None) None None) w0 ''redis://h'' True 60 =
     ((\<lparr>client = None, enabled = False, ttl = 60000000000\<rparr>, None),
      \<lparr>calls = [CallPing (NewClient ''redis://h'') (WithTimeout Background 5000000000),
                CallClose (NewClient ''redis://h'')],
       logs = []\<rparr>) \<and>
   NewCache (stub None ('''', None) None None) w0 ''redis://h'' True 60 =
     ((\<lparr>client = Some (NewClient ''redis://h''), enabled = True, ttl = 60000000000\<rparr>, None),
      \<lparr>calls = [CallPing (NewClient ''redis://h'') (WithTimeout Background 5000000000)],
       logs = []\<rparr>)"
proof -
  have p: "True \<and> ''redis://h'' \<noteq> [] \<and>
           ParseURL (stub (Some refused) ('''', None) None None) ''redis://h'' = Inr ''redis://h''"
    and q: "True \<and> ''redis://h'' \<noteq> [] \<and>
           ParseURL (stub None ('''', None) None None) ''redis://h'' = Inr ''redis://h''"
    by (simp_all add: stub_def)
  have down: "Ping (stub (Some refused) ('''', None) None None) (calls w0) (NewClient ''redis://h'')
             (WithTimeout Background (5 * Second)) = Some refused"
    and up: "Ping (stub None ('''', None) None None) (calls w0) (NewClient ''redis://h'')
             (WithTimeout Background (5 * Second)) = None"
    by (simp_all add: stub_def)
  have s: "(60 :: 64 word) * Second = 60000000000" "(5 :: 64 word) * Second = 5000000000"
    by (simp_all add: Second_def)
  from down NewCache_liveness_check [OF p, where w = w0 and err = refused and ttlSeconds = 60]
  have a: "NewCache (stub (Some refused) ('''', None) None None) w0 ''redis://h'' True 60 =
     ((\<lparr>client = None, enabled = False, ttl = 60000000000\<rparr>, None),
      \<lparr>calls = [CallPing (NewClient ''redis://h'') (WithTimeout Background 5000000000),
                CallClose (NewClient ''redis://h'')],
       logs = []\<rparr>)"
    by (simp add: s issue_def w0_def)
  from up NewCache_liveness_check [OF q, where w = w0 and ttlSeconds = 60]
  have b: "NewCache (stub None ('''', None) None None) w0 ''redis://h'' True 60 =
     ((\<lparr>client = Some (NewClient ''redis://h''), enabled = True, ttl = 60000000000\<rparr>, None),
      \<lparr>calls = [CallPing (NewClient ''redis://h'') (WithTimeout Background 5000000000)],
       logs = []\<rparr>)"
    by (simp add: s issue_def w0_def)
  from a b show ?thesis by blast
qed

text \<open>
  Claim C8. Whatever the address and the lifetime, with the flag false \<open>NewCache\<close>
  returns an instance that is not \<open>Enabled\<close> and has no client; whatever the lifetime,
  with the flag true and the empty address it does the same. In both cases nothing is
  sent to the store.
\<close>

theorem NewCache_disabled_inputs:
  "(case NewCache env w addr False ttlSeconds of
      ((c, e), w1) \<Rightarrow> Enabled c = False \<and> client c = None \<and> w1 = w) \<and>
   (case NewCache env w [] True ttlSeconds of
      ((c, e), w1) \<Rightarrow> Enabled c = False \<and> client c = None \<and> w1 = w)"
  by (simp add: NewCache_def Enabled_def)

theorem NewCache_disabled_inputs_witness:
  "Enabled (fst (fst (NewCache (stub None ('''', None) None None) w0 ''redis://h'' False 60))) = False \<and>
   client (fst (fst (NewCache (stub None ('''', None) None None) w0 ''redis://h'' False 60))) = None \<and>
   Enabled (fst (fst (NewCache (stub None ('''', None) None None) w0 [] True 60))) = False \<and>
   client (fst (fst (NewCache (stub None ('''', None) None None) w0 [] True 60))) = None"
  using NewCache_disabled_inputs
          [where env = "stub None ('''', None) None None" and w = w0 and addr = "''redis://h''"
             and ttlSeconds = 60]
  by (simp split: prod.splits)

section \<open>Get: decoding the value read\<close>

text \<open>
  Claim C6. On an available instance whose read succeeds with value \<open>val\<close>: when
  \<open>json.Unmarshal\<close> into the destination fails, \<open>Get\<close> returns false with that error
  wrapped as "unmarshal cache value" and the instance is unchanged, so \<open>enabled\<close> is
  still true; when it succeeds, \<open>Get\<close> returns (true, no error) and the destination holds
  what \<open>json.Unmarshal\<close> decoded.
\<close>

theorem Get_decoding:
  "Enabled c \<and> ClientGet env (calls w) (the (client c)) cx key = (val, None) \<Longrightarrow>
   (Unmarshal env (bytes_of_string val) dest = (decoded, Some uerr) \<longrightarrow>
      Get env w c cx key dest =
        ((False, Some (WrapError ''unmarshal cache value'' uerr)), decoded, c,
         issue w (CallGet (the (client c)) cx key)) \<and>
      enabled c) \<and>
   (Unmarshal env (bytes_of_string val) dest = (decoded, None) \<longrightarrow>
      Get env w c cx key dest =
        ((True, None), decoded, c, issue w (CallGet (the (client c)) cx key)))"
  by (simp add: Get_def client_Get_def Enabled_def)

theorem Get_decoding_witness:
  "Get (stub None (''!abc'', None) None None) w0 live Background ''k'' '''' =
     ((False, Some (WrapError ''unmarshal cache value'' (ErrorString ''invalid character''))),
      '''', live, \<lparr>calls = [CallGet (NewClient ''redis://h'') Background ''k''], logs = []\<rparr>) \<and>
   enabled live \<and>
   Get (stub None (''abc'', None) None None) w0 live Background ''k'' '''' =
     ((True, None), ''abc'', live,
      \<lparr>calls = [CallGet (NewClient ''redis://h'') Background ''k''], logs = []\<rparr>)"
proof -
  have p: "Enabled live \<and>
           ClientGet (stub None (''!abc'', None) None None) (calls w0) (the (client live))
             Background ''k'' = (''!abc'', None)"
    and q: "Enabled live \<and>
           ClientGet (stub None (''abc'', None) None None) (calls w0) (the (client live))
             Background ''k'' = (''abc'', None)"
    by (simp_all add: stub_def Enabled_def live_def)
  have bad: "Unmarshal (stub None (''!abc'', None) None None) (bytes_of_string ''!abc'') '''' =
               ('''', Some (ErrorString ''invalid character''))"
    by (simp add: stub_def bytes_of_string_def)
  have good: "Unmarshal (stub None (''abc'', None) None None) (bytes_of_string ''abc'') '''' =
               (''abc'', None)"
    by code_simp
  have l: "the (client live) = NewClient ''redis://h''"
    by (simp add: live_def)
  from bad Get_decoding [OF p, where dest = "''''" and decoded = "''''"
                           and uerr = "ErrorString ''invalid character''"]
  have a: "Get (stub None (''!abc'', None) None None) w0 live Background ''k'' '''' =
     ((False, Some (WrapError ''unmarshal cache value'' (ErrorString ''invalid character''))),
      '''', live, \<lparr>calls = [CallGet (NewClient ''redis://h'') Background ''k''], logs = []\<rparr>) \<and>
     enabled live"
    by (simp add: l issue_def w0_def)
  from good Get_decoding [OF q, where dest = "''''" and decoded = "''abc''"]
  have b: "Get (stub None (''abc'', None) None None) w0 live Background ''k'' '''' =
     ((True, None), ''abc'', live,
      \<lparr>calls = [CallGet (NewClient ''redis://h'') Background ''k''], logs = []\<rparr>)"
    by (simp add: l issue_def w0_def)
  from a b show ?thesis by blast
qed

section \<open>Key derivation\<close>

lemma hi_nibble: "unat (drop_bit 4 (v :: byte)) < 16"
proof -
  have "unat v < 2 ^ 8"
    using unsigned_less [of v, where ?'a = nat] by simp
  then have "unat v div 2 ^ 4 < 16" by simp
  then show ?thesis by (simp add: drop_bit_eq_div unat_div)
qed

lemma lo_nibble: "unat ((v :: byte) AND 0x0f) < 16"
proof -
  have "v AND 0x0f \<le> 0x0f" by (rule word_and_le1)
  then have "unat (v AND 0x0f) \<le> unat (0x0f :: byte)" by (simp only: word_le_nat_alt)
  then show ?thesis by simp
qed

lemma EncodeToString_length: "length (EncodeToString src) = 2 * length src"
  by (induction src) simp_all

lemma EncodeToString_hex: "set (EncodeToString src) \<subseteq> set hextable"
proof (induction src)
  case Nil
  show ?case by simp
next
  case (Cons v src)
  have n: "length hextable = 16" by (simp add: hextable_def)
  have "hextable ! unat (drop_bit 4 v) \<in> set hextable"
    using hi_nibble [of v] n by (intro nth_mem) simp
  moreover have "hextable ! unat (v AND 0x0f) \<in> set hextable"
    using lo_nibble [of v] n by (intro nth_mem) simp
  ultimately show ?case using Cons.IH by simp
qed

lemma digest_length: "length (Rep_digest h) = 32"
  using Rep_digest [of h] by simp

lemma pad_digest_bytes: "Rep_digest (pad_digest data) = take 32 (data @ replicate 32 0)"
  by (simp add: pad_digest_def Abs_digest_inverse)

text \<open>
  Claim C7. In both source files: when \<open>json.Marshal\<close> of the parameters fails,
  \<open>GenerateCacheKey\<close> returns the prefix followed by \<open>:fallback\<close>; otherwise it returns the
  prefix, a colon and the hex encoding of the 32 bytes (256 bits) of the digest of the
  serialized bytes, which is 64 characters long and made of the characters of
  \<open>hextable\<close> only. Every result has one of these two shapes.
\<close>

theorem GenerateCacheKey_shapes:
  "(Marshal env params = (data, Some err) \<longrightarrow>
      GenerateCacheKey env prefix params = prefix @ '':fallback'' \<and>
      GenerateCacheKey_log env prefix params = prefix @ '':fallback'') \<and>
   (Marshal env params = (data, None) \<longrightarrow>
      GenerateCacheKey env prefix params =
        prefix @ '':'' @ EncodeToString (Rep_digest (Sum256 env data)) \<and>
      GenerateCacheKey_log env prefix params =
        prefix @ '':'' @ EncodeToString (Rep_digest (Sum256 env data)) \<and>
      length (Rep_digest (Sum256 env data)) = 32 \<and>
      length (EncodeToString (Rep_digest (Sum256 env data))) = 64 \<and>
      set (EncodeToString (Rep_digest (Sum256 env data))) \<subseteq> set hextable) \<and>
   (GenerateCacheKey env prefix params = prefix @ '':fallback'' \<or>
    (\<exists>h. length h = 64 \<and> set h \<subseteq> set hextable \<and>
         GenerateCacheKey env prefix params = prefix @ '':'' @ h))"
proof (intro conjI impI)
  assume "Marshal env params = (data, Some err)"
  then show "GenerateCacheKey env prefix params = prefix @ '':fallback''"
    and "GenerateCacheKey_log env prefix params = prefix @ '':fallback''"
    by (simp_all add: GenerateCacheKey_def GenerateCacheKey_log_def)
next
  assume "Marshal env params = (data, None)"
  then show "GenerateCacheKey env prefix params =
               prefix @ '':'' @ EncodeToString (Rep_digest (Sum256 env data))"
    and "GenerateCacheKey_log env prefix params =
               prefix @ '':'' @ EncodeToString (Rep_digest (Sum256 env data))"
    by (simp_all add: GenerateCacheKey_def GenerateCacheKey_log_def)
next
  show "length (Rep_digest (Sum256 env data)) = 32"
    by (rule digest_length)
  show "length (EncodeToString (Rep_digest (Sum256 env data))) = 64"
    by (simp add: EncodeToString_length digest_length)
  show "set (EncodeToString (Rep_digest (Sum256 env data))) \<subseteq> set hextable"
    by (rule EncodeToString_hex)
next
  obtain bs merr where m: "Marshal env params = (bs, merr)"
    by (cases "Marshal env params")
  show "GenerateCacheKey env prefix params = prefix @ '':fallback'' \<or>
        (\<exists>h. length h = 64 \<and> set h \<subseteq> set hextable \<and>
             GenerateCacheKey env prefix params = prefix @ '':'' @ h)"
  proof (cases merr)
    case None
    let ?h = "EncodeToString (Rep_digest (Sum256 env bs))"
    have "length ?h = 64" by (simp add: EncodeToString_length digest_length)
    moreover have "set ?h \<subseteq> set hextable" by (rule EncodeToString_hex)
    moreover have "GenerateCacheKey env prefix params = prefix @ '':'' @ ?h"
      using m None by (simp add: GenerateCacheKey_def)
    ultimately show ?thesis by blast
  next
    case (Some e)
    with m show ?thesis by (simp add: GenerateCacheKey_def)
  qed
qed

theorem GenerateCacheKey_shapes_witness:
  "GenerateCacheKey (stub None ('''', None) None None) ''user'' ''cyclic'' = ''user:fallback'' \<and>
   GenerateCacheKey_log (stub None ('''', None) None None) ''user'' ''cyclic'' = ''user:fallback'' \<and>
   GenerateCacheKey (stub None ('''', None) None None) ''user'' ''id=1'' =
     ''user:69643d3100000000000000000000000000000000000000000000000000000000'' \<and>
   GenerateCacheKey_log (stub None ('''', None) None None) ''user'' ''id=1'' =
     ''user:69643d3100000000000000000000000000000000000000000000000000000000''"
proof -
  have bad: "Marshal (stub None ('''', None) None None) ''cyclic'' =
               ([], Some (ErrorString ''unsupported value''))"
    by (simp add: stub_def)
  have good: "Marshal (stub None ('''', None) None None) ''id=1'' =
               ([0x69, 0x64, 0x3d, 0x31], None)"
    by (simp add: stub_def bytes_of_string_def)
  have sum: "Rep_digest (Sum256 (stub None ('''', None) None None) [0x69, 0x64, 0x3d, 0x31]) =
               [0x69, 0x64, 0x3d, 0x31] @ replicate 28 0"
    by (simp add: stub_def pad_digest_bytes)
  have "EncodeToString ([0x69, 0x64, 0x3d, 0x31] @ replicate 28 0) =
          ''69643d3100000000000000000000000000000000000000000000000000000000''"
    by code_simp
  with sum
  have hex: "EncodeToString (Rep_digest (Sum256 (stub None ('''', None) None None)
               [0x69, 0x64, 0x3d, 0x31])) =
             ''69643d3100000000000000000000000000000000000000000000000000000000''"
    by (simp only:)
  from bad GenerateCacheKey_shapes
             [where env = "stub None ('''', None) None None" and params = "''cyclic''"
                and data = "[]" and err = "ErrorString ''unsupported value''"
                and prefix = "''user''"]
  have a: "GenerateCacheKey (stub None ('''', None) None None) ''user'' ''cyclic'' = ''user:fallback'' \<and>
           GenerateCacheKey_log (stub None ('''', None) None None) ''user'' ''cyclic'' = ''user:fallback''"
    by simp
  from good GenerateCacheKey_shapes
             [where env = "stub None ('''', None) None None" and params = "''id=1''"
                and data = "[0x69, 0x64, 0x3d, 0x31]" and prefix = "''user''"]
  have b: "GenerateCacheKey (stub None ('''', None) None None) ''user'' ''id=1'' =
             ''user:69643d3100000000000000000000000000000000000000000000000000000000'' \<and>
           GenerateCacheKey_log (stub None ('''', None) None None) ''user'' ''id=1'' =
             ''user:69643d3100000000000000000000000000000000000000000000000000000000''"
    by (simp add: hex)
  from a b show ?thesis by blast
qed

section \<open>What a store failure leaves in place\<close>

text \<open>
  Claim C10. No operation changes \<open>client\<close> or \<open>ttl\<close>. When \<open>Get\<close>, \<open>Set\<close> or \<open>Delete\<close>
  observes a store failure, the instance afterwards is the one before with \<open>enabled\<close>
  false and it still holds its client, so that \<open>Close\<close> on it sends the release of
  that client to the store and returns the store's answer (the release error, if any).
\<close>

theorem failure_keeps_handle:
  "client (fst (snd (step env w c x))) = client c \<and>
   ttl (fst (snd (step env w c x))) = ttl c \<and>
   (store_failure env w c x \<longrightarrow>
      (let c1 = fst (snd (step env w c x)); w1 = snd (snd (step env w c x))
       in c1 = c\<lparr>enabled := False\<rparr> \<and> client c1 = Some (the (client c)) \<and>
          Close env w1 c1 =
            (ClientClose env (calls w1) (the (client c)), issue w1 (CallClose (the (client c))))))"
proof -
  obtain r c1 w1 where s: "step env w c x = (r, c1, w1)"
    by (cases "step env w c x")
  have frame: "client c1 = client c \<and> ttl c1 = ttl c"
    using step_frame [OF s] by simp
  have "c1 = c\<lparr>enabled := False\<rparr> \<and> client c1 = Some (the (client c)) \<and>
        Close env w1 c1 =
          (ClientClose env (calls w1) (the (client c)), issue w1 (CallClose (the (client c))))"
    if f: "store_failure env w c x"
  proof -
    from f have "Enabled c" by (cases x) simp_all
    then obtain cl where cl: "client c = Some cl" by (auto simp: Enabled_def)
    from f s have "c1 = c\<lparr>enabled := False\<rparr>" by (rule step_failure)
    with cl show ?thesis by (simp add: Close_def client_Close_def)
  qed
  with frame s show ?thesis by (auto simp: Let_def)
qed

theorem failure_keeps_handle_witness:
  "store_failure (stub None ('''', None) (Some refused) (Some refused)) w0 live (OpDelete Background ''k'') \<and>
   Delete (stub None ('''', None) (Some refused) (Some refused)) w0 live Background ''k'' =
     (None, live\<lparr>enabled := False\<rparr>,
      \<lparr>calls = [CallDel (NewClient ''redis://h'') Background ''k''], logs = []\<rparr>) \<and>
   Close (stub None ('''', None) (Some refused) (Some refused))
     \<lparr>calls = [CallDel (NewClient ''redis://h'') Background ''k''], logs = []\<rparr>
     (live\<lparr>enabled := False\<rparr>) =
     (Some refused,
      \<lparr>calls = [CallDel (NewClient ''redis://h'') Background ''k'', CallClose (NewClient ''redis://h'')],
       logs = []\<rparr>)"
proof -
  let ?E = "stub None ('''', None) (Some refused) (Some refused)"
  let ?W = "\<lparr>calls = [CallDel (NewClient ''redis://h'') Background ''k''], logs = []\<rparr> :: string world"
  have f: "store_failure ?E w0 live (OpDelete Background ''k'')"
    by (simp add: stub_def Enabled_def live_def)
  have d: "Delete ?E w0 live Background ''k'' = (None, live\<lparr>enabled := False\<rparr>, ?W)"
    by (simp add: ex_defs)
  then have st: "step ?E w0 live (OpDelete Background ''k'') =
                   (ErrResult None, live\<lparr>enabled := False\<rparr>, ?W)"
    by simp
  have l: "the (client live) = NewClient ''redis://h''"
    by (simp add: live_def)
  have a: "ClientClose ?E [CallDel (NewClient ''redis://h'') Background ''k''] (NewClient ''redis://h'') =
             Some refused"
    by (simp add: stub_def)
  from f failure_keeps_handle
           [where env = ?E and w = w0 and c = live and x = "OpDelete Background ''k''",
            unfolded st]
  have "Close ?E ?W (live\<lparr>enabled := False\<rparr>) =
          (Some refused,
           \<lparr>calls = [CallDel (NewClient ''redis://h'') Background ''k'',
                     CallClose (NewClient ''redis://h'')],
            logs = []\<rparr>)"
    by (simp add: Let_def l a issue_def)
  with f d show ?thesis by blast
qed

section \<open>The two source files\<close>

text \<open>
  Claim C9. The two variants behave alike but for the log. Started on the same
  instance in worlds that differ at most in their logs, every operation of the logging
  file (construction, \<open>Enabled\<close>, \<open>Get\<close>, \<open>Set\<close>, \<open>Delete\<close>, \<open>Close\<close>, key derivation) returns
  the same results, the same destination and the same instance as the operation of
  \<open>cache.go\<close>, and sends the same commands to the store: the world it leaves is the world
  \<open>cache.go\<close> leaves, once its log is put back to the log \<open>cache.go\<close> started with.
\<close>

theorem variants_equivalent:
  "(let r = NewCache_log env (w\<lparr>logs := l\<rparr>) redisURL enabledFlag ttlSeconds
    in NewCache env w redisURL enabledFlag ttlSeconds = (fst r, (snd r)\<lparr>logs := logs w\<rparr>)) \<and>
   Enabled_log c = Enabled c \<and>
   (let r = Get_log env (w\<lparr>logs := l\<rparr>) c cx key dest
    in Get env w c cx key dest =
         (fst r, fst (snd r), fst (snd (snd r)), (snd (snd (snd r)))\<lparr>logs := logs w\<rparr>)) \<and>
   (let r = Set_log env (w\<lparr>logs := l\<rparr>) c cx key v
    in Set env w c cx key v = (fst r, fst (snd r), (snd (snd r))\<lparr>logs := logs w\<rparr>)) \<and>
   (let r = Delete_log env (w\<lparr>logs := l\<rparr>) c cx key
    in Delete env w c cx key = (fst r, fst (snd r), (snd (snd r))\<lparr>logs := logs w\<rparr>)) \<and>
   (let r = Close_log env (w\<lparr>logs := l\<rparr>) c
    in Close env w c = (fst r, (snd r)\<lparr>logs := logs w\<rparr>)) \<and>
   GenerateCacheKey_log env prefix params = GenerateCacheKey env prefix params"
proof (intro conjI)
  show "let r = NewCache_log env (w\<lparr>logs := l\<rparr>) redisURL enabledFlag ttlSeconds
        in NewCache env w redisURL enabledFlag ttlSeconds = (fst r, (snd r)\<lparr>logs := logs w\<rparr>)"
    by (simp add: NewCache_def NewCache_log_def Let_def log_Printf_def issue_def
          client_Ping_def client_Close_def split: sum.splits option.splits)
  show "Enabled_log c = Enabled c"
    by (simp add: Enabled_def Enabled_log_def)
  show "let r = Get_log env (w\<lparr>logs := l\<rparr>) c cx key dest
        in Get env w c cx key dest =
             (fst r, fst (snd r), fst (snd (snd r)), (snd (snd (snd r)))\<lparr>logs := logs w\<rparr>)"
    by (simp add: Get_def Get_log_def Enabled_def Enabled_log_def Let_def log_Printf_def
          issue_def client_Get_def split: prod.splits option.splits)
  show "let r = Set_log env (w\<lparr>logs := l\<rparr>) c cx key v
        in Set env w c cx key v = (fst r, fst (snd r), (snd (snd r))\<lparr>logs := logs w\<rparr>)"
    by (simp add: Set_def Set_log_def Enabled_def Enabled_log_def Let_def log_Printf_def
          issue_def client_Set_def split: prod.splits option.splits)
  show "let r = Delete_log env (w\<lparr>logs := l\<rparr>) c cx key
        in Delete env w c cx key = (fst r, fst (snd r), (snd (snd r))\<lparr>logs := logs w\<rparr>)"
    by (simp add: Delete_def Delete_log_def Enabled_def Enabled_log_def Let_def log_Printf_def
          issue_def client_Del_def split: prod.splits option.splits)
  show "let r = Close_log env (w\<lparr>logs := l\<rparr>) c
        in Close env w c = (fst r, (snd r)\<lparr>logs := logs w\<rparr>)"
    by (simp add: Close_def Close_log_def Let_def issue_def client_Close_def
          split: option.splits)
  show "GenerateCacheKey_log env prefix params = GenerateCacheKey env prefix params"
    by (simp add: GenerateCacheKey_def GenerateCacheKey_log_def)
qed

theorem variants_equivalent_witness:
  "NewCache_log (stub None ('''', None) None None) w0 ''redis://h'' True 60 =
     ((live, None),
      \<lparr>calls = [CallPing (NewClient ''redis://h'') (WithTimeout Background 5000000000)],
       logs = [(''[Redis] Initializing cache with URL: %s, TTL: %d seconds'',
                [ArgString ''redis://h'', ArgInt 60]),
               (''[Redis] Cache enabled and connected successfully'', [])]\<rparr>) \<and>
   NewCache (stub None ('''', None) None None) w0 ''redis://h'' True 60 =
     ((live, None),
      \<lparr>calls = [CallPing (NewClient ''redis://h'') (WithTimeout Background 5000000000)],
       logs = []\<rparr>) \<and>
   Get_log (stub None ('''', Some refused) None None) w0 live Background ''k'' '''' =
     ((False, None), '''', live\<lparr>enabled := False\<rparr>,
      \<lparr>calls = [CallGet (NewClient ''redis://h'') Background ''k''],
       logs = [(''[Redis] Get error for key %s: %v (disabling cache)'',
                [ArgString ''k'', ArgError refused])]\<rparr>) \<and>
   Get (stub None ('''', Some refused) None None) w0 live Background ''k'' '''' =
     ((False, None), '''', live\<lparr>enabled := False\<rparr>,
      \<lparr>calls = [CallGet (NewClient ''redis://h'') Background ''k''], logs = []\<rparr>)"
proof -
  have n: "NewCache_log (stub None ('''', None) None None) w0 ''redis://h'' True 60 =
     ((live, None),
      \<lparr>calls = [CallPing (NewClient ''redis://h'') (WithTimeout Background 5000000000)],
       logs = [(''[Redis] Initializing cache with URL: %s, TTL: %d seconds'',
                [ArgString ''redis://h'', ArgInt 60]),
               (''[Redis] Cache enabled and connected successfully'', [])]\<rparr>)"
    by (simp add: NewCache_log_def log_Printf_def Let_def ex_defs)
  have g: "Get_log (stub None ('''', Some refused) None None) w0 live Background ''k'' '''' =
     ((False, None), '''', live\<lparr>enabled := False\<rparr>,
      \<lparr>calls = [CallGet (NewClient ''redis://h'') Background ''k''],
       logs = [(''[Redis] Get error for key %s: %v (disabling cache)'',
                [ArgString ''k'', ArgError refused])]\<rparr>)"
    by (simp add: Get_log_def Enabled_log_def log_Printf_def ex_defs)
  have w: "w0\<lparr>logs := []\<rparr> = w0" "logs w0 = []"
    by (simp_all add: w0_def)
  from variants_equivalent
         [where env = "stub None ('''', None) None None" and w = w0 and l = "[]"
            and redisURL = "''redis://h''" and enabledFlag = True and ttlSeconds = 60]
  have a: "NewCache (stub None ('''', None) None None) w0 ''redis://h'' True 60 =
     ((live, None),
      \<lparr>calls = [CallPing (NewClient ''redis://h'') (WithTimeout Background 5000000000)],
       logs = []\<rparr>)"
    by (simp add: Let_def w n)
  from variants_equivalent
         [where env = "stub None ('''', Some refused) None None" and w = w0 and l = "[]"
            and c = live and cx = Background and key = "''k''" and dest = "''''"]
  have b: "Get (stub None ('''', Some refused) None None) w0 live Background ''k'' '''' =
     ((False, None), '''', live\<lparr>enabled := False\<rparr>,
      \<lparr>calls = [CallGet (NewClient ''redis://h'') Background ''k''], logs = []\<rparr>)"
    by (simp add: Let_def w g)
  from n a g b show ?thesis by blast
qed

end
